theory Spec2Isabelle
  imports Main "HOL-Library.Word"
begin

section \<open>The relay server (Go): data model\<close>

text \<open>
  The relay is a Go program with four HTTP handlers. The two that carry the protocol are
  \<^verbatim>\<open>getToken\<close> (with \<^verbatim>\<open>generateToken\<close>) and \<^verbatim>\<open>sendMessage\<close> (with
  \<^verbatim>\<open>publishToCentrifugo\<close>). Everything outside the program is a parameter of the
  model: the wall clock (one argument per call of \<^verbatim>\<open>time.Now()\<close>), the JWT library's
  signing function, gin's JSON binding (its result is the handler's input), and the broker
  behind the HTTP client (a function from the calls made so far and the request to what
  the call returns).
\<close>

subsection \<open>Time and number formatting\<close>

text \<open>A \<^verbatim>\<open>time.Time\<close> is its number of nanoseconds since the Unix epoch; a
  \<^verbatim>\<open>time.Duration\<close> is a number of nanoseconds.\<close>

type_synonym time = int
type_synonym duration = int

definition Hour :: duration where
  "Hour = 3600 * 1000000000"

definition Add :: "time \<Rightarrow> duration \<Rightarrow> time" where
  "Add t d = t + d"

text \<open>\<^verbatim>\<open>Unix()\<close> is the number of whole seconds since the epoch (rounded down).\<close>

definition Unix :: "time \<Rightarrow> int" where
  "Unix t = t div 1000000000"

text \<open>\<^verbatim>\<open>UnixNano()\<close> is computed in \<^verbatim>\<open>int64\<close> and wraps around outside the
  years 1678 to 2262.\<close>

definition UnixNano :: "time \<Rightarrow> int" where
  "UnixNano t = sint (word_of_int t :: 64 word)"

text \<open>The verb \<^verbatim>\<open>%d\<close> of \<^verbatim>\<open>fmt.Sprintf\<close>: decimal digits, with a minus sign for
  a negative number.\<close>

definition digit :: "nat \<Rightarrow> char" where
  "digit d = ''0123456789'' ! d"

fun show_nat :: "nat \<Rightarrow> string" where
  "show_nat n =
     (if n < 10 then [digit n]
      else show_nat (n div 10) @ [digit (n mod 10)])"

declare show_nat.simps [simp del]

definition show_int :: "int \<Rightarrow> string" where
  "show_int i = (if i < 0 then CHR ''-'' # show_nat (nat (- i)) else show_nat (nat i))"

subsection \<open>Structs\<close>

record Message =
  ID :: string
  Topic :: string
  Content :: string
  Author :: string
  Timestamp :: time

record PublishRequest =
  Channel :: string
  Data :: Message

text \<open>The fields of \<^verbatim>\<open>SendMessageRequest\<close> are \<^verbatim>\<open>Topic\<close>, \<^verbatim>\<open>Content\<close> and
  \<^verbatim>\<open>Author\<close>; they carry a prefix here because a \<^verbatim>\<open>Message\<close> has fields of the
  same names.\<close>

record SendMessageRequest =
  ReqTopic :: string
  ReqContent :: string
  ReqAuthor :: string

record TokenRequest =
  User :: string

record CentrifugoConfig =
  URL :: string
  APIKey :: string
  TokenHMACSecretKey :: string

text \<open>What a handler answers: the status code and the JSON body passed to
  \<^verbatim>\<open>c.JSON\<close>. \<^verbatim>\<open>gin.H{"error": e}\<close> is \<open>Error_body e\<close>,
  \<^verbatim>\<open>gin.H{"success": true, "message": m}\<close> is \<open>Success_body m\<close>, and
  \<^verbatim>\<open>TokenResponse{Token: t}\<close> is \<open>Token_body t\<close>.\<close>

datatype json_body = Error_body string | Success_body Message | Token_body string

type_synonym response = "nat \<times> json_body"

definition StatusOK :: nat where "StatusOK = 200"
definition StatusBadRequest :: nat where "StatusBadRequest = 400"
definition StatusInternalServerError :: nat where "StatusInternalServerError = 500"

subsection \<open>The broker and the world\<close>

text \<open>The HTTP request that \<^verbatim>\<open>publishToCentrifugo\<close> builds: a POST to
  \<^verbatim>\<open><URL>/api/publish\<close> with the API key in the \<^verbatim>\<open>Authorization\<close> header and the
  publish request as its JSON body.\<close>

record http_request =
  req_url :: string
  req_authorization :: string
  req_body :: PublishRequest

text \<open>What one call of \<^verbatim>\<open>publishToCentrifugo\<close> meets, step by step: marshalling can
  fail, building the request can fail, \<^verbatim>\<open>client.Do\<close> can fail (transport error or the
  10 second timeout), or the broker answers with a status code and a body.\<close>

datatype publish_outcome =
    Marshal_error string
  | Request_error string
  | Do_error string
  | Http_response nat string

text \<open>The broker decides each call from the calls made before it and the request.\<close>

type_synonym broker = "PublishRequest list \<Rightarrow> http_request \<Rightarrow> publish_outcome"

text \<open>The effects of a handler: the calls of \<^verbatim>\<open>publishToCentrifugo\<close> in order, and the
  lines written with \<^verbatim>\<open>log.Printf\<close>.\<close>

record world =
  publish_calls :: "PublishRequest list"
  log_lines :: "string list"

definition log_Printf :: "string \<Rightarrow> world \<Rightarrow> world" where
  "log_Printf line w = w\<lparr>log_lines := log_lines w @ [line]\<rparr>"

section \<open>The relay server: operations\<close>

text \<open>\<^verbatim>\<open>publishToCentrifugo\<close> returns an \<^verbatim>\<open>error\<close>: \<open>None\<close> is \<^verbatim>\<open>nil\<close>.\<close>

definition publishToCentrifugo ::
  "CentrifugoConfig \<Rightarrow> broker \<Rightarrow> string \<Rightarrow> Message \<Rightarrow> world \<Rightarrow> string option \<times> world" where
  "publishToCentrifugo cfg br channel data w =
     (let publishReq = \<lparr>Channel = channel, Data = data\<rparr>;
          request = \<lparr>req_url = URL cfg @ ''/api/publish'',
                     req_authorization = ''apikey '' @ APIKey cfg,
                     req_body = publishReq\<rparr>;
          w' = w\<lparr>publish_calls := publish_calls w @ [publishReq]\<rparr>
      in case br (publish_calls w) request of
           Marshal_error e \<Rightarrow> (Some (''failed to marshal publish request: '' @ e), w')
         | Request_error e \<Rightarrow> (Some (''failed to create request: '' @ e), w')
         | Do_error e \<Rightarrow> (Some (''failed to send request to Centrifugo: '' @ e), w')
         | Http_response status body \<Rightarrow>
             if status \<noteq> StatusOK
             then (Some (''Centrifugo API error: '' @ show_nat status @ '' - '' @ body), w')
             else (None, w'))"

text \<open>The fixed catalog of \<^verbatim>\<open>sendMessage\<close> (and of \<^verbatim>\<open>getTopics\<close>).\<close>

definition topics :: "string list" where
  "topics = [''all'', ''general'', ''tech'', ''random'', ''announcements'']"

text \<open>The loop \<^verbatim>\<open>for _, topic := range topics\<close> of the aggregate branch: every topic
  is published to; an error is logged and the loop goes on.\<close>

fun publish_each ::
  "CentrifugoConfig \<Rightarrow> broker \<Rightarrow> string list \<Rightarrow> Message \<Rightarrow> world \<Rightarrow> world" where
  "publish_each cfg br [] message w = w"
| "publish_each cfg br (topic # rest) message w =
     (case publishToCentrifugo cfg br (''topic:'' @ topic) message w of
        (Some err, w1) \<Rightarrow>
          publish_each cfg br rest message
            (log_Printf (''Failed to publish to '' @ [CHR 0x27] @ topic @ [CHR 0x27] @ '' topic: '' @ err) w1)
      | (None, w1) \<Rightarrow> publish_each cfg br rest message w1)"

text \<open>\<^verbatim>\<open>sendMessage\<close>. Its input is the result of \<^verbatim>\<open>c.ShouldBindJSON(&req)\<close>: \<open>Inl\<close>
  the binding error, \<open>Inr\<close> the bound request. \<open>t_id\<close> and \<open>t_stamp\<close> are the two
  readings of the clock, for the identifier and for the timestamp.\<close>

definition sendMessage ::
  "CentrifugoConfig \<Rightarrow> broker \<Rightarrow> time \<Rightarrow> time \<Rightarrow> string + SendMessageRequest \<Rightarrow> world
     \<Rightarrow> response \<times> world" where
  "sendMessage cfg br t_id t_stamp bound w =
     (case bound of
        Inl err \<Rightarrow> ((StatusBadRequest, Error_body ''Invalid request format''), w)
      | Inr req \<Rightarrow>
          if ReqTopic req = [] \<or> ReqContent req = [] \<or> ReqAuthor req = []
          then ((StatusBadRequest, Error_body ''Topic, content, and author are required''), w)
          else
            let message = \<lparr>ID = show_int (UnixNano t_id), Topic = ReqTopic req,
                            Content = ReqContent req, Author = ReqAuthor req,
                            Timestamp = t_stamp\<rparr>
            in if ReqTopic req = ''all''
               then ((StatusOK, Success_body message), publish_each cfg br topics message w)
               else
                 (case publishToCentrifugo cfg br (''topic:'' @ ReqTopic req) message w of
                    (Some err, w1) \<Rightarrow>
                      ((StatusInternalServerError, Error_body ''Failed to send message''),
                       log_Printf (''Failed to publish to Centrifugo: '' @ err) w1)
                  | (None, w1) \<Rightarrow>
                      (case publishToCentrifugo cfg br ''topic:all'' message w1 of
                         (Some err, w2) \<Rightarrow>
                           ((StatusOK, Success_body message),
                            log_Printf (''Failed to publish to '' @ [CHR 0x27] @ ''all'' @ [CHR 0x27] @ '' topic: '' @ err) w2)
                       | (None, w2) \<Rightarrow> ((StatusOK, Success_body message), w2))))"

subsection \<open>The credential issuer\<close>

text \<open>The JWT library is outside the program. A claim set (\<^verbatim>\<open>jwt.MapClaims\<close>) is a
  map from claim names to values; \<^verbatim>\<open>jwt.NewWithClaims(method, claims)\<close> followed by
  \<^verbatim>\<open>SignedString(key)\<close> is one call of the signing function, which returns \<open>Inl\<close> an
  error or \<open>Inr\<close> the signed token.\<close>

datatype claim_value = Claim_string string | Claim_int int

type_synonym MapClaims = "string \<rightharpoonup> claim_value"

datatype signing_method = SigningMethodHS256 | SigningMethodHS384 | SigningMethodHS512

type_synonym signer = "signing_method \<Rightarrow> string \<Rightarrow> MapClaims \<Rightarrow> string + string"

text \<open>\<^verbatim>\<open>generateToken\<close> reads the clock twice: \<open>t_iat\<close> is the reading for
  \<^verbatim>\<open>"iat"\<close>, \<open>t_exp\<close> the later one for \<^verbatim>\<open>"exp"\<close>.\<close>

definition token_claims :: "time \<Rightarrow> time \<Rightarrow> string \<Rightarrow> MapClaims" where
  "token_claims t_iat t_exp user =
     [''sub'' \<mapsto> Claim_string user,
      ''iat'' \<mapsto> Claim_int (Unix t_iat),
      ''exp'' \<mapsto> Claim_int (Unix (Add t_exp (24 * Hour)))]"

definition generateToken ::
  "CentrifugoConfig \<Rightarrow> signer \<Rightarrow> time \<Rightarrow> time \<Rightarrow> string \<Rightarrow> string + string" where
  "generateToken cfg sign t_iat t_exp user =
     (let claims = token_claims t_iat t_exp user
      in case sign SigningMethodHS256 (TokenHMACSecretKey cfg) claims of
           Inl err \<Rightarrow> Inl (''failed to sign token: '' @ err)
         | Inr tokenString \<Rightarrow> Inr tokenString)"

text \<open>\<^verbatim>\<open>getToken\<close>, on the result of \<^verbatim>\<open>c.ShouldBindJSON(&req)\<close>.\<close>

definition getToken ::
  "CentrifugoConfig \<Rightarrow> signer \<Rightarrow> time \<Rightarrow> time \<Rightarrow> string + TokenRequest \<Rightarrow> world
     \<Rightarrow> response \<times> world" where
  "getToken cfg sign t_iat t_exp bound w =
     (case bound of
        Inl err \<Rightarrow> ((StatusBadRequest, Error_body ''Invalid request format''), w)
      | Inr req \<Rightarrow>
          if User req = []
          then ((StatusBadRequest, Error_body ''User is required''), w)
          else
            (case generateToken cfg sign t_iat t_exp (User req) of
               Inl err \<Rightarrow>
                 ((StatusInternalServerError, Error_body ''Failed to generate token''),
                  log_Printf (''Failed to generate token: '' @ err) w)
             | Inr token \<Rightarrow> ((StatusOK, Token_body token), w)))"

section \<open>The client page (Svelte): data model\<close>

text \<open>
  The page keeps its state in module-level variables and reacts to events: the mount, the
  user typing a name or clicking a topic, timers, the answers of \<^verbatim>\<open>fetch\<close>, and the
  callbacks of the Centrifuge library. Each stretch of code that runs without interruption
  is one function from state to state; what the code asks of the outside (library calls,
  \<^verbatim>\<open>fetch\<close>, timers, the console) is appended to a trace of effects. The objects made
  by the library (\<^verbatim>\<open>new Centrifuge(...)\<close>, \<^verbatim>\<open>centrifuge.newSubscription(...)\<close>) live
  in two stores indexed by creation order, so that a variable holding an object holds its
  index and two variables alias exactly when the indices are equal. The page modelled is
  the one with the aggregate topic (\<^verbatim>\<open>currentTopic = 'all'\<close> at the start, messages
  sent through the relay).
\<close>

record ChatMessage =
  msg_id :: string
  msg_topic :: string
  msg_content :: string
  msg_author :: string
  msg_timestamp :: string

text \<open>The second argument of \<^verbatim>\<open>new Centrifuge(url, options)\<close>: absent, or
  \<^verbatim>\<open>{token: token}\<close> where the token read from the response may be undefined.\<close>

datatype conn_options = No_options | Token_option "string option"

text \<open>A subscription object: the Centrifuge object it was created on, its channel, and
  the \<^verbatim>\<open>topic\<close> its publication callback closed over.\<close>

record Subscription =
  sub_client :: nat
  sub_channel :: string
  sub_topic :: string

datatype effect =
    Fetch_topics
  | Fetch_token string
  | New_Centrifuge nat conn_options
  | Connect nat
  | Disconnect nat
  | Set_timeout nat
  | New_subscription nat nat string
  | Subscribe nat
  | Unsubscribe nat
  | Console_log string
  | Console_error string
  | Scroll_to_bottom

record page =
  centrifuge :: "nat option"
  connected :: bool
  currentTopic :: string
  messages :: "ChatMessage list"
  username :: string
  subscription :: "nat option"
  subscriptions :: "(string \<times> nat) list"
  availableTopics :: "string list"
  previousUsername :: string
  clients :: "conn_options list"
  subs :: "Subscription list"
  effects :: "effect list"

text \<open>The variables as declared at the top of the script; no object exists yet.\<close>

definition init :: page where
  "init = \<lparr>centrifuge = None, connected = False, currentTopic = ''all'', messages = [],
           username = [], subscription = None, subscriptions = [], availableTopics = [],
           previousUsername = [], clients = [], subs = [], effects = []\<rparr>"

definition emit :: "effect \<Rightarrow> page \<Rightarrow> page" where
  "emit e s = s\<lparr>effects := effects s @ [e]\<rparr>"

text \<open>\<^verbatim>\<open>subscriptions[channelName] = subscription\<close> on a plain object: an existing
  property keeps its place, a new one is added last.\<close>

fun assign :: "(string \<times> nat) list \<Rightarrow> string \<Rightarrow> nat \<Rightarrow> (string \<times> nat) list" where
  "assign [] k v = [(k, v)]"
| "assign ((k', v') # kvs) k v = (if k' = k then (k, v) # kvs else (k', v') # assign kvs k v)"

section \<open>The client page: operations\<close>

text \<open>\<^verbatim>\<open>joinTopic\<close>. Objects are truthy, so \<^verbatim>\<open>if (subscription)\<close> and
  \<^verbatim>\<open>if (subscriptions[channelName])\<close> test for presence. Every key of the registry
  starts with \<^verbatim>\<open>topic:\<close>, so no inherited property of the object is ever looked up.\<close>

definition joinTopic :: "string \<Rightarrow> page \<Rightarrow> page" where
  "joinTopic topic s =
     (let s1 = (case subscription s of Some h \<Rightarrow> emit (Unsubscribe h) s | None \<Rightarrow> s);
          s2 = s1\<lparr>messages := [], currentTopic := topic\<rparr>
      in case centrifuge s2 of
           None \<Rightarrow> s2
         | Some c \<Rightarrow>
             if \<not> connected s2 then s2
             else
               (let channelName = ''topic:'' @ topic
                in (case map_of (subscriptions s2) channelName of
                      Some h \<Rightarrow> emit (Subscribe h) (s2\<lparr>subscription := Some h\<rparr>)
                    | None \<Rightarrow>
                        (let h = length (subs s2);
                             new = \<lparr>sub_client = c, sub_channel = channelName,
                                    sub_topic = topic\<rparr>;
                             s3 = emit (New_subscription c h channelName)
                                    (s2\<lparr>subs := subs s2 @ [new]\<rparr>);
                             s4 = s3\<lparr>subscription := Some h,
                                     subscriptions := assign (subscriptions s3) channelName h\<rparr>
                         in emit (Subscribe h) s4))))"

text \<open>The publication callback registered on subscription \<open>h\<close> when it was created.\<close>

definition on_publication :: "nat \<Rightarrow> ChatMessage \<Rightarrow> page \<Rightarrow> page" where
  "on_publication h message s =
     (if h < length (subs s) \<and> currentTopic s = sub_topic (subs s ! h)
      then emit Scroll_to_bottom (s\<lparr>messages := messages s @ [message]\<rparr>)
      else s)"

text \<open>What \<^verbatim>\<open>fetch\<close> of the token gives: the promise rejects, or a response arrives with
  its \<^verbatim>\<open>ok\<close> flag and a body; reading the token from the body throws, or gives
  \<^verbatim>\<open>data.token\<close> (undefined when the field is missing).\<close>

datatype json_result = Json_rejected string | Json_data "string option"

datatype fetch_result = Fetch_rejected string | Fetch_response bool json_result

text \<open>\<^verbatim>\<open>getTokenAndConnect\<close> up to its first \<^verbatim>\<open>await\<close>: the request is sent with
  the user name of that moment.\<close>

definition getTokenAndConnect_request :: "page \<Rightarrow> page" where
  "getTokenAndConnect_request s = emit (Fetch_token (username s)) s"

definition initializeCentrifugo :: "page \<Rightarrow> page" where
  "initializeCentrifugo s = getTokenAndConnect_request s"

text \<open>Both branches end alike: a new Centrifuge object is stored in \<^verbatim>\<open>centrifuge\<close>, the
  three callbacks are registered on it, and \<^verbatim>\<open>connect()\<close> is called.\<close>

definition open_connection :: "conn_options \<Rightarrow> page \<Rightarrow> page" where
  "open_connection opts s =
     (let c = length (clients s)
      in emit (Connect c)
           (emit (New_Centrifuge c opts) (s\<lparr>centrifuge := Some c, clients := clients s @ [opts]\<rparr>)))"

text \<open>The \<^verbatim>\<open>catch\<close> block.\<close>

definition fallback :: "string \<Rightarrow> page \<Rightarrow> page" where
  "fallback error s =
     open_connection No_options
       (emit (Console_log ''Falling back to anonymous connection...'')
          (emit (Console_error (''Failed to get token or connect: '' @ error)) s))"

text \<open>The rest of \<^verbatim>\<open>getTokenAndConnect\<close>, run when the fetch settles.\<close>

definition getTokenAndConnect_response :: "fetch_result \<Rightarrow> page \<Rightarrow> page" where
  "getTokenAndConnect_response r s =
     (case r of
        Fetch_rejected error \<Rightarrow> fallback error s
      | Fetch_response ok body \<Rightarrow>
          if \<not> ok then fallback ''Error: Failed to get token'' s
          else
            (case body of
               Json_rejected error \<Rightarrow> fallback error s
             | Json_data token \<Rightarrow> open_connection (Token_option token) s))"

text \<open>The callbacks registered on Centrifuge object \<open>c\<close>. They do not look at \<open>c\<close>:
  they work on the page's variables as they are when the event arrives. The two
  branches differ in the line logged on connection.\<close>

definition on_connected :: "nat \<Rightarrow> page \<Rightarrow> page" where
  "on_connected c s =
     (if c < length (clients s)
      then joinTopic (currentTopic s)
             (emit (Console_log (case clients s ! c of
                                   No_options \<Rightarrow> ''Connected to Centrifugo (anonymous)''
                                 | Token_option t \<Rightarrow> ''Connected to Centrifugo''))
                (s\<lparr>connected := True\<rparr>))
      else s)"

definition on_disconnected :: "nat \<Rightarrow> page \<Rightarrow> page" where
  "on_disconnected c s =
     (if c < length (clients s)
      then emit (Console_log ''Disconnected from Centrifugo'') (s\<lparr>connected := False\<rparr>)
      else s)"

definition on_error :: "nat \<Rightarrow> string \<Rightarrow> page \<Rightarrow> page" where
  "on_error c error s =
     (if c < length (clients s) then emit (Console_error (''Centrifugo error: '' @ error)) s
      else s)"

definition on_subscription_error :: "nat \<Rightarrow> string \<Rightarrow> page \<Rightarrow> page" where
  "on_subscription_error h error s =
     (if h < length (subs s) then emit (Console_error (''Subscription error: '' @ error)) s
      else s)"

text \<open>\<^verbatim>\<open>reconnectWithNewToken\<close>: the timer's callback is \<^verbatim>\<open>initializeCentrifugo\<close>.\<close>

definition reconnectWithNewToken :: "page \<Rightarrow> page" where
  "reconnectWithNewToken s =
     emit (Set_timeout 500)
       (case centrifuge s of Some c \<Rightarrow> emit (Disconnect c) s | None \<Rightarrow> s)"

text \<open>The reactive statement \<^verbatim>\<open>$: if (username && ...) {...} else if (...) {...}\<close>,
  run once after each change of \<^verbatim>\<open>username\<close>. The empty string is falsy.\<close>

definition reactive :: "page \<Rightarrow> page" where
  "reactive s =
     (if username s \<noteq> [] \<and> username s \<noteq> previousUsername s \<and> previousUsername s \<noteq> []
      then reconnectWithNewToken (s\<lparr>previousUsername := username s\<rparr>)
      else if previousUsername s = [] then s\<lparr>previousUsername := username s\<rparr>
      else s)"

text \<open>The input field bound to \<^verbatim>\<open>username\<close>.\<close>

definition set_username :: "string \<Rightarrow> page \<Rightarrow> page" where
  "set_username u s = reactive (s\<lparr>username := u\<rparr>)"

text \<open>\<^verbatim>\<open>onMount\<close>: up to the fetch of the topics, and from its answer on: \<open>Inr\<close>
  the topics, or \<open>Inl\<close> the error caught when the fetch or its JSON fails, which
  \<^verbatim>\<open>console.error('Failed to load topics:', error)\<close> prints after its label. \<open>n\<close>
  is \<^verbatim>\<open>Math.floor(Math.random() * 1000)\<close>. The reactive statement runs after
  \<^verbatim>\<open>initializeCentrifugo()\<close> has sent its request.\<close>

definition onMount_request :: "page \<Rightarrow> page" where
  "onMount_request s = emit Fetch_topics s"

definition onMount_response :: "string + string list \<Rightarrow> nat \<Rightarrow> page \<Rightarrow> page" where
  "onMount_response r n s =
     (let s1 = (case r of
                  Inr ts \<Rightarrow> s\<lparr>availableTopics := ts\<rparr>
                | Inl error \<Rightarrow>
                    (emit (Console_error (''Failed to load topics: '' @ error)) s)
                      \<lparr>availableTopics := [''all'', ''general'', ''tech'', ''random'']\<rparr>);
          s2 = s1\<lparr>username := ''User'' @ show_nat n\<rparr>
      in reactive (initializeCentrifugo s2))"

text \<open>\<^verbatim>\<open>onDestroy\<close>: \<^verbatim>\<open>Object.values(subscriptions)\<close> lists the registry in
  insertion order.\<close>

definition onDestroy :: "page \<Rightarrow> page" where
  "onDestroy s =
     (let s1 = s\<lparr>effects := effects s @ map (\<lambda>kv. Unsubscribe (snd kv)) (subscriptions s)\<rparr>
      in case centrifuge s1 of Some c \<Rightarrow> emit (Disconnect c) s1 | None \<Rightarrow> s1)"

subsection \<open>The page as an event system\<close>

datatype event =
    Mount
  | Topics_fetched "string + string list" nat
  | Username_input string
  | Topic_click string
  | Timeout_fired
  | Token_fetched fetch_result
  | On_connected nat
  | On_disconnected nat
  | On_error nat string
  | On_publication nat ChatMessage
  | On_subscription_error nat string
  | Destroy

fun step :: "page \<Rightarrow> event \<Rightarrow> page" where
  "step s Mount = onMount_request s"
| "step s (Topics_fetched r n) = onMount_response r n s"
| "step s (Username_input u) = set_username u s"
| "step s (Topic_click topic) = joinTopic topic s"
| "step s Timeout_fired = initializeCentrifugo s"
| "step s (Token_fetched r) = getTokenAndConnect_response r s"
| "step s (On_connected c) = on_connected c s"
| "step s (On_disconnected c) = on_disconnected c s"
| "step s (On_error c e) = on_error c e s"
| "step s (On_publication h m) = on_publication h m s"
| "step s (On_subscription_error h e) = on_subscription_error h e s"
| "step s Destroy = onDestroy s"

definition run :: "page \<Rightarrow> event list \<Rightarrow> page" where
  "run s evs = foldl step s evs"

text \<open>A sequence of publication events, each on a subscription with its message.\<close>

definition deliveries :: "(nat \<times> ChatMessage) list \<Rightarrow> event list" where
  "deliveries ds = map (\<lambda>d. On_publication (fst d) (snd d)) ds"

section \<open>Invariant of the subscription registry\<close>

text \<open>Every subscription object ever created is the entry of the registry under its own
  channel, and the channel of a subscription is \<^verbatim>\<open>topic:\<close> followed by the topic its
  callback closed over.\<close>

definition registry_ok :: "page \<Rightarrow> bool" where
  "registry_ok s =
     (map (\<lambda>sb. map_of (subscriptions s) (sub_channel sb)) (subs s) =
        map Some [0..<length (subs s)] \<and>
      map sub_channel (subs s) = map (\<lambda>sb. ''topic:'' @ sub_topic sb) (subs s))"

section \<open>Inputs used in the examples\<close>

definition cfg0 :: CentrifugoConfig where
  "cfg0 = \<lparr>URL = ''http://localhost:8000'', APIKey = ''api_key'',
           TokenHMACSecretKey = ''token_hmac_secret_key''\<rparr>"

definition w0 :: world where
  "w0 = \<lparr>publish_calls = [], log_lines = []\<rparr>"

text \<open>A broker on which every publish to the aggregate channel times out and every
  other publish succeeds; a broker that is down; and a healthy one.\<close>

definition br_all_down :: broker where
  "br_all_down calls r =
     (if Channel (req_body r) = ''topic:all'' then Do_error ''context deadline exceeded''
      else Http_response 200 ''{}'')"

definition br_down :: broker where
  "br_down calls r = Http_response 503 ''unavailable''"

definition br_up :: broker where
  "br_up calls r = Http_response 200 ''{}''"

text \<open>A signing function that prints the two time claims it is given, so that the
  token shows them.\<close>

definition sign_echo :: signer where
  "sign_echo m key claims =
     (case (claims ''iat'', claims ''exp'') of
        (Some (Claim_int i), Some (Claim_int e)) \<Rightarrow> Inr (show_int i @ ''/'' @ show_int e)
      | _ \<Rightarrow> Inl ''missing claims'')"

definition sign_broken :: signer where
  "sign_broken m key claims = Inl ''key is of invalid type''"

text \<open>Traces of the page: the mount with a failed fetch of the topics, a token, and the
  connection coming up; and the same followed by a change of the user name to
  \<^verbatim>\<open>bob\<close> with the reconnection it starts. Two chat messages.\<close>

definition connected_trace :: "event list" where
  "connected_trace =
     [Mount, Topics_fetched (Inl ''TypeError: Failed to fetch'') 7,
      Token_fetched (Fetch_response True (Json_data (Some ''t1''))), On_connected 0]"

definition reconnect_trace :: "event list" where
  "reconnect_trace =
     connected_trace @
     [Username_input ''bob'', On_disconnected 0, Timeout_fired,
      Token_fetched (Fetch_response True (Json_data (Some ''t2''))), On_connected 1]"

definition msg_a :: ChatMessage where
  "msg_a = \<lparr>msg_id = ''1'', msg_topic = ''all'', msg_content = ''hi'', msg_author = ''bob'',
            msg_timestamp = ''2025-01-01T00:00:00Z''\<rparr>"

definition msg_b :: ChatMessage where
  "msg_b = \<lparr>msg_id = ''2'', msg_topic = ''tech'', msg_content = ''ho'', msg_author = ''eve'',
            msg_timestamp = ''2025-01-01T00:00:01Z''\<rparr>"

section \<open>The relay server: publishing\<close>

lemma publishToCentrifugo_calls:
  "publish_calls (snd (publishToCentrifugo cfg br channel data w)) =
     publish_calls w @ [\<lparr>Channel = channel, Data = data\<rparr>]"
  by (simp add: publishToCentrifugo_def Let_def split: publish_outcome.split)

text \<open>A publish succeeds exactly when the broker answers with status 200.\<close>

lemma publishToCentrifugo_ok_iff:
  "fst (publishToCentrifugo cfg br channel data w) = None \<longleftrightarrow>
     (\<exists>body. br (publish_calls w)
               \<lparr>req_url = URL cfg @ ''/api/publish'',
                req_authorization = ''apikey '' @ APIKey cfg,
                req_body = \<lparr>Channel = channel, Data = data\<rparr>\<rparr> = Http_response 200 body)"
  by (simp add: publishToCentrifugo_def Let_def StatusOK_def split: publish_outcome.split)

lemma publish_each_calls:
  "publish_calls (publish_each cfg br ts message w) =
     publish_calls w @ map (\<lambda>t. \<lparr>Channel = ''topic:'' @ t, Data = message\<rparr>) ts"
proof (induction ts arbitrary: w)
  case Nil
  show ?case by simp
next
  case (Cons t ts)
  obtain e w1 where p: "publishToCentrifugo cfg br (''topic:'' @ t) message w = (e, w1)"
    by (cases "publishToCentrifugo cfg br (''topic:'' @ t) message w")
  have c: "publish_calls w1 = publish_calls w @ [\<lparr>Channel = ''topic:'' @ t, Data = message\<rparr>]"
    using publishToCentrifugo_calls [of cfg br "''topic:'' @ t" message w] p by simp
  show ?case
  proof (cases e)
    case None
    with p c Cons.IH [of w1] show ?thesis by simp
  next
    case (Some err)
    with p c
      Cons.IH [of "log_Printf (''Failed to publish to '' @ [CHR 0x27] @ t @ [CHR 0x27] @
                      '' topic: '' @ err) w1"]
    show ?thesis by (simp add: log_Printf_def)
  qed
qed

text \<open>
  \<^bold>\<open>C1.\<close> A request with a concrete (non-aggregate) topic and non-empty topic, content
  and author publishes the constructed message to \<^verbatim>\<open>topic:<topic>\<close> first. If that
  publish returns an error, the answer is the 500 error and no further publish is
  attempted. If it succeeds, the same message is published once more, to
  \<^verbatim>\<open>topic:all\<close>, and the answer is the success with the message whatever that second
  publish returns (the broker is arbitrary).
\<close>

theorem sendMessage_concrete_topic:
  assumes "ReqTopic req \<noteq> ''all''" and "ReqTopic req \<noteq> []"
    and "ReqContent req \<noteq> []" and "ReqAuthor req \<noteq> []"
  shows
    "(case publishToCentrifugo cfg br (''topic:'' @ ReqTopic req)
             \<lparr>ID = show_int (UnixNano t_id), Topic = ReqTopic req, Content = ReqContent req,
               Author = ReqAuthor req, Timestamp = t_stamp\<rparr> w of
        (Some err, w1) \<Rightarrow>
          fst (sendMessage cfg br t_id t_stamp (Inr req) w) =
            (StatusInternalServerError, Error_body ''Failed to send message'') \<and>
          publish_calls (snd (sendMessage cfg br t_id t_stamp (Inr req) w)) =
            publish_calls w @
            [\<lparr>Channel = ''topic:'' @ ReqTopic req,
              Data = \<lparr>ID = show_int (UnixNano t_id), Topic = ReqTopic req,
                Content = ReqContent req, Author = ReqAuthor req, Timestamp = t_stamp\<rparr>\<rparr>]
      | (None, w1) \<Rightarrow>
          fst (sendMessage cfg br t_id t_stamp (Inr req) w) =
            (StatusOK, Success_body \<lparr>ID = show_int (UnixNano t_id), Topic = ReqTopic req,
               Content = ReqContent req, Author = ReqAuthor req, Timestamp = t_stamp\<rparr>) \<and>
          publish_calls (snd (sendMessage cfg br t_id t_stamp (Inr req) w)) =
            publish_calls w @
            [\<lparr>Channel = ''topic:'' @ ReqTopic req,
              Data = \<lparr>ID = show_int (UnixNano t_id), Topic = ReqTopic req,
                Content = ReqContent req, Author = ReqAuthor req, Timestamp = t_stamp\<rparr>\<rparr>,
             \<lparr>Channel = ''topic:all'',
              Data = \<lparr>ID = show_int (UnixNano t_id), Topic = ReqTopic req,
                Content = ReqContent req, Author = ReqAuthor req, Timestamp = t_stamp\<rparr>\<rparr>])"
proof -
  let ?m = "\<lparr>ID = show_int (UnixNano t_id), Topic = ReqTopic req, Content = ReqContent req,
               Author = ReqAuthor req, Timestamp = t_stamp\<rparr>"
  obtain e w1 where p: "publishToCentrifugo cfg br (''topic:'' @ ReqTopic req) ?m w = (e, w1)"
    by (cases "publishToCentrifugo cfg br (''topic:'' @ ReqTopic req) ?m w")
  have c1: "publish_calls w1 =
      publish_calls w @ [\<lparr>Channel = ''topic:'' @ ReqTopic req, Data = ?m\<rparr>]"
    using publishToCentrifugo_calls [of cfg br "''topic:'' @ ReqTopic req" ?m w] p by simp
  show ?thesis
  proof (cases e)
    case (Some err)
    with p c1 assms show ?thesis
      by (simp add: sendMessage_def Let_def log_Printf_def)
  next
    case None
    obtain e2 w2 where q: "publishToCentrifugo cfg br ''topic:all'' ?m w1 = (e2, w2)"
      by (cases "publishToCentrifugo cfg br ''topic:all'' ?m w1")
    have c2: "publish_calls w2 = publish_calls w1 @ [\<lparr>Channel = ''topic:all'', Data = ?m\<rparr>]"
      using publishToCentrifugo_calls [of cfg br "''topic:all''" ?m w1] q by simp
    from None p q c1 c2 assms show ?thesis
      by (cases e2) (simp_all add: sendMessage_def Let_def log_Printf_def)
  qed
qed

text \<open>The scenario of the specification with the mirror publish failing: the answer is
  still the success, after two publishes.\<close>

theorem sendMessage_concrete_topic_witness:
  "fst (sendMessage cfg0 br_all_down 1 2
          (Inr \<lparr>ReqTopic = ''general'', ReqContent = ''hi'', ReqAuthor = ''alice''\<rparr>) w0) =
     (StatusOK, Success_body \<lparr>ID = show_int (UnixNano 1), Topic = ''general'',
        Content = ''hi'', Author = ''alice'', Timestamp = 2\<rparr>) \<and>
   map Channel (publish_calls (snd (sendMessage cfg0 br_all_down 1 2
          (Inr \<lparr>ReqTopic = ''general'', ReqContent = ''hi'', ReqAuthor = ''alice''\<rparr>) w0))) =
     [''topic:general'', ''topic:all'']"
  using sendMessage_concrete_topic
    [where req = "\<lparr>ReqTopic = ''general'', ReqContent = ''hi'', ReqAuthor = ''alice''\<rparr>"
       and cfg = cfg0 and br = br_all_down and t_id = 1 and t_stamp = 2 and w = w0]
  by (simp add: publishToCentrifugo_def br_all_down_def cfg0_def w0_def StatusOK_def)

text \<open>
  \<^bold>\<open>C2.\<close> A request with topic \<^verbatim>\<open>all\<close> and non-empty content and author makes exactly
  five publish attempts, one per channel of the catalog
  \<^verbatim>\<open>all, general, tech, random, announcements\<close> in that order, each with the same
  message, and answers with the success whatever the broker returns to any of them.
\<close>

theorem sendMessage_aggregate_topic:
  assumes "ReqTopic req = ''all''" and "ReqContent req \<noteq> []" and "ReqAuthor req \<noteq> []"
  shows "fst (sendMessage cfg br t_id t_stamp (Inr req) w) =
           (StatusOK, Success_body \<lparr>ID = show_int (UnixNano t_id), Topic = ''all'',
              Content = ReqContent req, Author = ReqAuthor req, Timestamp = t_stamp\<rparr>) \<and>
         publish_calls (snd (sendMessage cfg br t_id t_stamp (Inr req) w)) =
           publish_calls w @
           map (\<lambda>t. \<lparr>Channel = ''topic:'' @ t,
                     Data = \<lparr>ID = show_int (UnixNano t_id), Topic = ''all'',
                       Content = ReqContent req, Author = ReqAuthor req, Timestamp = t_stamp\<rparr>\<rparr>)
             [''all'', ''general'', ''tech'', ''random'', ''announcements''] \<and>
         length (publish_calls (snd (sendMessage cfg br t_id t_stamp (Inr req) w))) =
           length (publish_calls w) + 5"
  using assms
  by (simp add: sendMessage_def Let_def publish_each_calls topics_def del: publish_each.simps)

text \<open>The scenario of the specification, on a broker that rejects every publish.\<close>

theorem sendMessage_aggregate_topic_witness:
  "fst (sendMessage cfg0 br_down 1 2
          (Inr \<lparr>ReqTopic = ''all'', ReqContent = ''hi'', ReqAuthor = ''bob''\<rparr>) w0) =
     (StatusOK, Success_body \<lparr>ID = show_int (UnixNano 1), Topic = ''all'',
        Content = ''hi'', Author = ''bob'', Timestamp = 2\<rparr>) \<and>
   map Channel (publish_calls (snd (sendMessage cfg0 br_down 1 2
          (Inr \<lparr>ReqTopic = ''all'', ReqContent = ''hi'', ReqAuthor = ''bob''\<rparr>) w0))) =
     [''topic:all'', ''topic:general'', ''topic:tech'', ''topic:random'',
      ''topic:announcements'']"
  using sendMessage_aggregate_topic
    [where req = "\<lparr>ReqTopic = ''all'', ReqContent = ''hi'', ReqAuthor = ''bob''\<rparr>"
       and cfg = cfg0 and br = br_down and t_id = 1 and t_stamp = 2 and w = w0]
  by (simp add: w0_def)

text \<open>
  \<^bold>\<open>C3.\<close> A request in which the topic, the content or the author is the empty string
  is answered with the 400 validation error, and the world is unchanged: no publish is
  attempted and nothing is logged.
\<close>

theorem sendMessage_validation:
  assumes "ReqTopic req = [] \<or> ReqContent req = [] \<or> ReqAuthor req = []"
  shows "sendMessage cfg br t_id t_stamp (Inr req) w =
           ((StatusBadRequest, Error_body ''Topic, content, and author are required''), w)"
  using assms by (simp add: sendMessage_def)

text \<open>Each field empty on its own, the other two filled in.\<close>

theorem sendMessage_validation_witness:
  "sendMessage cfg0 br_up 1 2
     (Inr \<lparr>ReqTopic = [], ReqContent = ''hi'', ReqAuthor = ''bob''\<rparr>) w0 =
     ((StatusBadRequest, Error_body ''Topic, content, and author are required''), w0) \<and>
   sendMessage cfg0 br_up 1 2
     (Inr \<lparr>ReqTopic = ''tech'', ReqContent = [], ReqAuthor = ''bob''\<rparr>) w0 =
     ((StatusBadRequest, Error_body ''Topic, content, and author are required''), w0) \<and>
   sendMessage cfg0 br_up 1 2
     (Inr \<lparr>ReqTopic = ''tech'', ReqContent = ''hi'', ReqAuthor = []\<rparr>) w0 =
     ((StatusBadRequest, Error_body ''Topic, content, and author are required''), w0)"
  using
    sendMessage_validation
      [where req = "\<lparr>ReqTopic = [], ReqContent = ''hi'', ReqAuthor = ''bob''\<rparr>"
         and cfg = cfg0 and br = br_up and t_id = 1 and t_stamp = 2 and w = w0]
    sendMessage_validation
      [where req = "\<lparr>ReqTopic = ''tech'', ReqContent = [], ReqAuthor = ''bob''\<rparr>"
         and cfg = cfg0 and br = br_up and t_id = 1 and t_stamp = 2 and w = w0]
    sendMessage_validation
      [where req = "\<lparr>ReqTopic = ''tech'', ReqContent = ''hi'', ReqAuthor = []\<rparr>"
         and cfg = cfg0 and br = br_up and t_id = 1 and t_stamp = 2 and w = w0]
  by simp

text \<open>
  \<^bold>\<open>C10.\<close> When the body of a request to \<^verbatim>\<open>POST /api/messages\<close> does not bind to the
  expected JSON shape, the answer is 400 with the error \<^verbatim>\<open>Invalid request format\<close> and
  the world is unchanged: no message is constructed and no publish is attempted. The
  answer is the binding error, not the one of the empty-field validation, which is never
  reached.
\<close>

theorem sendMessage_bind_error:
  "sendMessage cfg br t_id t_stamp (Inl err) w =
     ((StatusBadRequest, Error_body ''Invalid request format''), w)"
  by (simp add: sendMessage_def)

section \<open>The relay server: issuing credentials\<close>

lemma Unix_Add_day: "Unix (Add t (24 * Hour)) = Unix t + 86400"
  by (simp add: Unix_def Add_def Hour_def)

text \<open>
  \<^bold>\<open>C4\<close>, as the code has it. An empty user name is answered with the 400 validation error
  and no token. For a non-empty user name the signing function is called once, with the
  method HS256, the configured secret and the claim set of exactly three entries: the
  subject is the user name, the issue time is the first reading of the clock in whole
  seconds, and the expiry is the second reading of the clock in whole seconds plus 24
  hours. A signing error is answered with the 500 error and logged; otherwise the answer
  carries the signed token as the signing function returned it.
\<close>

theorem getToken_issues_credential:
  "getToken cfg sign t_iat t_exp (Inr req) w =
     (if User req = [] then ((StatusBadRequest, Error_body ''User is required''), w)
      else case sign SigningMethodHS256 (TokenHMACSecretKey cfg)
                  [''sub'' \<mapsto> Claim_string (User req),
                   ''iat'' \<mapsto> Claim_int (Unix t_iat),
                   ''exp'' \<mapsto> Claim_int (Unix t_exp + 86400)] of
             Inl err \<Rightarrow>
               ((StatusInternalServerError, Error_body ''Failed to generate token''),
                log_Printf (''Failed to generate token: failed to sign token: '' @ err) w)
           | Inr token \<Rightarrow> ((StatusOK, Token_body token), w))"
  by (simp add: getToken_def generateToken_def token_claims_def Unix_Add_day Let_def
        split: sum.split)

text \<open>Both readings within the sixth second: issued at 5, expiring at 86405. An empty
  user name, and a signing function that fails.\<close>

theorem getToken_issues_credential_witness:
  "getToken cfg0 sign_echo 5000000000 5000000001 (Inr \<lparr>User = ''alice''\<rparr>) w0 =
     ((StatusOK, Token_body ''5/86405''), w0) \<and>
   getToken cfg0 sign_echo 5000000000 5000000001 (Inr \<lparr>User = []\<rparr>) w0 =
     ((StatusBadRequest, Error_body ''User is required''), w0) \<and>
   getToken cfg0 sign_broken 5000000000 5000000001 (Inr \<lparr>User = ''alice''\<rparr>) w0 =
     ((StatusInternalServerError, Error_body ''Failed to generate token''),
      \<lparr>publish_calls = [],
       log_lines = [''Failed to generate token: failed to sign token: key is of invalid type'']\<rparr>)"
  using
    getToken_issues_credential
      [of cfg0 sign_echo 5000000000 5000000001 "\<lparr>User = ''alice''\<rparr>" w0]
    getToken_issues_credential
      [of cfg0 sign_echo 5000000000 5000000001 "\<lparr>User = []\<rparr>" w0]
    getToken_issues_credential
      [of cfg0 sign_broken 5000000000 5000000001 "\<lparr>User = ''alice''\<rparr>" w0]
  by (simp add: sign_echo_def sign_broken_def Unix_def show_int_def show_nat.simps digit_def
        log_Printf_def w0_def)

text \<open>The specification has one \<open>now\<close> for both time claims, so that the expiry is
  the issue time plus 24 hours. With the first reading one nanosecond before a full
  second and the next one on it, the token carries issue time 0 and expiry 86401.\<close>

theorem getToken_expiry_counterexample:
  "token_claims 999999999 1000000000 ''alice'' ''iat'' = Some (Claim_int 0) \<and>
   token_claims 999999999 1000000000 ''alice'' ''exp'' = Some (Claim_int 86401) \<and>
   getToken cfg0 sign_echo 999999999 1000000000 (Inr \<lparr>User = ''alice''\<rparr>) w0 =
     ((StatusOK, Token_body ''0/86401''), w0)"
  by (simp add: getToken_def generateToken_def token_claims_def Let_def sign_echo_def
        Unix_def Add_def Hour_def show_int_def show_nat.simps digit_def)

section \<open>The client page: the subscription registry\<close>

lemma map_of_assign:
  "map_of (assign kvs k v) k' = (if k' = k then Some v else map_of kvs k')"
  by (induction kvs) auto




lemma joinTopic_known:
  assumes "centrifuge s = Some c" and "connected s"
    and "map_of (subscriptions s) (''topic:'' @ t) = Some h"
  shows "subscription (joinTopic t s) = Some h"
    and "subs (joinTopic t s) = subs s"
    and "subscriptions (joinTopic t s) = subscriptions s"
  using assms by (simp_all add: joinTopic_def emit_def Let_def split: option.split)


lemma joinTopic_disconnected:
  assumes "centrifuge s = None \<or> \<not> connected s"
  shows "subs (joinTopic t s) = subs s" and "subscriptions (joinTopic t s) = subscriptions s"
  using assms by (auto simp add: joinTopic_def emit_def Let_def split: option.split)

text \<open>Only \<open>joinTopic\<close> touches the registry and the store of subscriptions.\<close>

lemma frame:
  "subs (emit e s) = subs s" "subscriptions (emit e s) = subscriptions s"
  "subs (onMount_request s) = subs s" "subscriptions (onMount_request s) = subscriptions s"
  "subs (reconnectWithNewToken s) = subs s"
  "subscriptions (reconnectWithNewToken s) = subscriptions s"
  "subs (reactive s) = subs s" "subscriptions (reactive s) = subscriptions s"
  "subs (set_username u s) = subs s" "subscriptions (set_username u s) = subscriptions s"
  "subs (initializeCentrifugo s) = subs s" "subscriptions (initializeCentrifugo s) = subscriptions s"
  "subs (onMount_response r n s) = subs s" "subscriptions (onMount_response r n s) = subscriptions s"
  "subs (getTokenAndConnect_response fr s) = subs s"
  "subscriptions (getTokenAndConnect_response fr s) = subscriptions s"
  "subs (on_disconnected c s) = subs s" "subscriptions (on_disconnected c s) = subscriptions s"
  "subs (on_error c er s) = subs s" "subscriptions (on_error c er s) = subscriptions s"
  "subs (on_publication h m s) = subs s" "subscriptions (on_publication h m s) = subscriptions s"
  "subs (on_subscription_error h er s) = subs s"
  "subscriptions (on_subscription_error h er s) = subscriptions s"
  "subs (onDestroy s) = subs s" "subscriptions (onDestroy s) = subscriptions s"
  by (simp_all add: emit_def onMount_request_def reconnectWithNewToken_def reactive_def
        set_username_def initializeCentrifugo_def getTokenAndConnect_request_def
        onMount_response_def getTokenAndConnect_response_def fallback_def open_connection_def
        on_disconnected_def on_error_def on_publication_def on_subscription_error_def
        onDestroy_def Let_def
        split: option.split sum.split fetch_result.split json_result.split)



lemma registry_ok_init: "registry_ok init"
  by (simp add: registry_ok_def init_def)

lemma registry_ok_frame:
  "registry_ok s \<Longrightarrow> subs s' = subs s \<Longrightarrow> subscriptions s' = subscriptions s \<Longrightarrow> registry_ok s'"
  by (simp add: registry_ok_def)

lemma registry_ok_joinTopic:
  assumes "registry_ok s"
  shows "registry_ok (joinTopic t s)"
proof (cases "centrifuge s = None \<or> \<not> connected s")
  case True
  with assms joinTopic_disconnected [OF True, of t] show ?thesis
    by (simp add: registry_ok_def)
next
  case False
  then obtain c where c: "centrifuge s = Some c" "connected s" by auto
  show ?thesis
  proof (cases "map_of (subscriptions s) (''topic:'' @ t)")
    case (Some h)
    with assms joinTopic_known(2,3) [OF c Some] show ?thesis
      by (simp add: registry_ok_def)
  next
    case None
    have fresh: "\<forall>sb \<in> set (subs s). sub_channel sb \<noteq> ''topic:'' @ t"
    proof
      fix sb assume "sb \<in> set (subs s)"
      then obtain i where i: "i < length (subs s)" "subs s ! i = sb"
        by (auto simp: in_set_conv_nth)
      from assms have "map (\<lambda>sb. map_of (subscriptions s) (sub_channel sb)) (subs s) ! i =
          map Some [0..<length (subs s)] ! i"
        by (simp add: registry_ok_def)
      with i have "map_of (subscriptions s) (sub_channel sb) = Some i" by simp
      with None show "sub_channel sb \<noteq> ''topic:'' @ t" by auto
    qed
    have s': "subs (joinTopic t s) =
        subs s @ [\<lparr>sub_client = c, sub_channel = ''topic:'' @ t, sub_topic = t\<rparr>]"
      "subscriptions (joinTopic t s) = assign (subscriptions s) (''topic:'' @ t) (length (subs s))"
      using c None by (simp_all add: joinTopic_def emit_def Let_def split: option.split)
    from fresh have "map (\<lambda>sb. map_of (assign (subscriptions s) (''topic:'' @ t) (length (subs s)))
          (sub_channel sb)) (subs s)
       = map (\<lambda>sb. map_of (subscriptions s) (sub_channel sb)) (subs s)"
      by (simp add: map_of_assign)
    with assms s' show ?thesis
      by (simp add: registry_ok_def map_of_assign)
  qed
qed

lemma registry_ok_step:
  assumes "registry_ok s"
  shows "registry_ok (step s e)"
proof (cases e)
  case (Topic_click t)
  with assms show ?thesis by (simp add: registry_ok_joinTopic)
next
  case (On_connected c)
  have "registry_ok (emit x (s\<lparr>connected := True\<rparr>))" for x
    using assms by (rule registry_ok_frame) (simp_all add: emit_def)
  with On_connected assms show ?thesis
    by (simp add: on_connected_def registry_ok_joinTopic)
qed (use assms in \<open>auto intro: registry_ok_frame simp: frame\<close>)

lemma registry_ok_run: "registry_ok s \<Longrightarrow> registry_ok (run s evs)"
  unfolding run_def by (induction evs arbitrary: s) (simp_all add: registry_ok_step)


lemma registry_ok_channel:
  assumes "registry_ok s" and "h < length (subs s)"
  shows "sub_channel (subs s ! h) = ''topic:'' @ sub_topic (subs s ! h)"
proof -
  from assms(1)
  have eq: "map sub_channel (subs s) = map (\<lambda>sb. ''topic:'' @ sub_topic sb) (subs s)"
    unfolding registry_ok_def by blast
  have l: "map sub_channel (subs s) ! h = sub_channel (subs s ! h)"
    using assms(2) by (rule nth_map)
  have r: "map (\<lambda>sb. ''topic:'' @ sub_topic sb) (subs s) ! h = ''topic:'' @ sub_topic (subs s ! h)"
    using assms(2) by (rule nth_map)
  from eq l r show ?thesis by metis
qed


section \<open>The client page: inbound deliveries\<close>

lemma on_publication_fields:
  "currentTopic (on_publication h m s) = currentTopic s"
  by (simp add: on_publication_def emit_def)

lemma run_deliveries_messages:
  "messages (run s (deliveries ds)) =
     messages s @ map snd (filter (\<lambda>d. fst d < length (subs s) \<and>
                                         sub_topic (subs s ! fst d) = currentTopic s) ds)"
proof (induction ds arbitrary: s)
  case Nil
  show ?case by (simp add: run_def deliveries_def)
next
  case (Cons d ds)
  have "run s (deliveries (d # ds)) = run (on_publication (fst d) (snd d) s) (deliveries ds)"
    by (simp add: run_def deliveries_def)
  then show ?case
    using Cons.IH [of "on_publication (fst d) (snd d) s"]
    by (auto simp add: frame on_publication_fields) (simp_all add: on_publication_def emit_def)
qed

text \<open>
  \<^bold>\<open>C6.\<close> In a reachable state, a publication event on an existing subscription appends
  the message to the end of the message list exactly when the subscription's channel is
  the channel of the current topic; otherwise the state is left as it was, so the message
  is kept nowhere. Over a sequence of deliveries the list grows by the accepted messages,
  in the order of delivery.
\<close>

theorem publication_appended_iff_active:
  assumes "s = run init evs" and "h < length (subs s)"
    and "list_all (\<lambda>d. fst d < length (subs s)) ds"
  shows "step s (On_publication h m) =
           (if sub_channel (subs s ! h) = ''topic:'' @ currentTopic s
            then emit Scroll_to_bottom (s\<lparr>messages := messages s @ [m]\<rparr>)
            else s) \<and>
         messages (run s (deliveries ds)) =
           messages s @
           map snd (filter (\<lambda>d. sub_channel (subs s ! fst d) = ''topic:'' @ currentTopic s) ds)"
proof
  have ok: "registry_ok s" using assms(1) registry_ok_run [OF registry_ok_init] by simp
  have ch: "sub_channel (subs s ! i) = ''topic:'' @ currentTopic s \<longleftrightarrow>
            sub_topic (subs s ! i) = currentTopic s" if "i < length (subs s)" for i
    using registry_ok_channel [OF ok that] by auto
  show "step s (On_publication h m) =
           (if sub_channel (subs s ! h) = ''topic:'' @ currentTopic s
            then emit Scroll_to_bottom (s\<lparr>messages := messages s @ [m]\<rparr>)
            else s)"
    using assms(2) ch [OF assms(2)] by (auto simp add: on_publication_def)
  have "filter (\<lambda>d. fst d < length (subs s) \<and> sub_topic (subs s ! fst d) = currentTopic s) ds =
        filter (\<lambda>d. sub_channel (subs s ! fst d) = ''topic:'' @ currentTopic s) ds"
    using assms(3) ch by (intro filter_cong) (auto simp: list_all_iff)
  then show "messages (run s (deliveries ds)) =
           messages s @
           map snd (filter (\<lambda>d. sub_channel (subs s ! fst d) = ''topic:'' @ currentTopic s) ds)"
    by (simp add: run_deliveries_messages)
qed

section \<open>The client page: evaluated traces\<close>

lemmas page_defs =
  run_def init_def emit_def joinTopic_def on_publication_def getTokenAndConnect_request_def
  initializeCentrifugo_def open_connection_def fallback_def getTokenAndConnect_response_def
  on_connected_def on_disconnected_def on_error_def on_subscription_error_def
  reconnectWithNewToken_def reactive_def set_username_def onMount_request_def
  onMount_response_def onDestroy_def deliveries_def Let_def show_nat.simps digit_def

lemma run_connected_trace:
  "run init connected_trace =
     \<lparr>centrifuge = Some 0, connected = True, currentTopic = ''all'', messages = [],
      username = ''User7'', subscription = Some 0, subscriptions = [(''topic:all'', 0)],
      availableTopics = [''all'', ''general'', ''tech'', ''random''],
      previousUsername = ''User7'', clients = [Token_option (Some ''t1'')],
      subs = [\<lparr>sub_client = 0, sub_channel = ''topic:all'', sub_topic = ''all''\<rparr>],
      effects =
        [Fetch_topics, Console_error ''Failed to load topics: TypeError: Failed to fetch'',
         Fetch_token ''User7'',
         New_Centrifuge 0 (Token_option (Some ''t1'')), Connect 0,
         Console_log ''Connected to Centrifugo'', New_subscription 0 0 ''topic:all'',
         Subscribe 0]\<rparr>"
  by (simp add: connected_trace_def page_defs)

lemma run_append: "run s (evs @ evs') = run (run s evs) evs'"
  by (simp add: run_def)

lemma run_tech:
  "run init (connected_trace @ [Topic_click ''tech'']) =
     \<lparr>centrifuge = Some 0, connected = True, currentTopic = ''tech'', messages = [],
      username = ''User7'', subscription = Some 1,
      subscriptions = [(''topic:all'', 0), (''topic:tech'', 1)],
      availableTopics = [''all'', ''general'', ''tech'', ''random''],
      previousUsername = ''User7'', clients = [Token_option (Some ''t1'')],
      subs = [\<lparr>sub_client = 0, sub_channel = ''topic:all'', sub_topic = ''all''\<rparr>,
              \<lparr>sub_client = 0, sub_channel = ''topic:tech'', sub_topic = ''tech''\<rparr>],
      effects =
        [Fetch_topics, Console_error ''Failed to load topics: TypeError: Failed to fetch'',
         Fetch_token ''User7'',
         New_Centrifuge 0 (Token_option (Some ''t1'')), Connect 0,
         Console_log ''Connected to Centrifugo'', New_subscription 0 0 ''topic:all'',
         Subscribe 0, Unsubscribe 0, New_subscription 0 1 ''topic:tech'', Subscribe 1]\<rparr>"
  by (simp add: run_append run_connected_trace) (simp add: page_defs)


text \<open>An instance of \<^bold>\<open>C6\<close>: with \<^verbatim>\<open>tech\<close> active, deliveries on the subscription of
  \<^verbatim>\<open>topic:all\<close> are dropped and those on the one of \<^verbatim>\<open>topic:tech\<close> are appended in
  order.\<close>

theorem publication_appended_iff_active_witness:
  "step (run init (connected_trace @ [Topic_click ''tech''])) (On_publication 0 msg_a) =
     run init (connected_trace @ [Topic_click ''tech'']) \<and>
   messages (step (run init (connected_trace @ [Topic_click ''tech''])) (On_publication 1 msg_b)) =
     [msg_b] \<and>
   messages (run (run init (connected_trace @ [Topic_click ''tech'']))
               (deliveries [(0, msg_a), (1, msg_b), (0, msg_b), (1, msg_a)])) = [msg_b, msg_a]"
  using
    publication_appended_iff_active
      [where s = "run init (connected_trace @ [Topic_click ''tech''])"
         and evs = "connected_trace @ [Topic_click ''tech'']" and h = 0 and m = msg_a
         and ds = "[(0, msg_a), (1, msg_b), (0, msg_b), (1, msg_a)]"]
    publication_appended_iff_active
      [where s = "run init (connected_trace @ [Topic_click ''tech''])"
         and evs = "connected_trace @ [Topic_click ''tech'']" and h = 1 and m = msg_b
         and ds = "[]"]
  by (simp add: run_tech emit_def)

section \<open>The client page: connection setup and identity changes\<close>

text \<open>
  \<^bold>\<open>C8.\<close> When the fetch of the token is rejected, or its response is not OK, the rest
  of \<^verbatim>\<open>getTokenAndConnect\<close> logs the failure on the console, creates a Centrifuge
  object without a token, stores it in \<^verbatim>\<open>centrifuge\<close> and calls \<^verbatim>\<open>connect()\<close> on it.
  Nothing else of the page changes, and the only effects are the two console lines and
  the two library calls.
\<close>

theorem token_failure_falls_back:
  "step s (Token_fetched (Fetch_rejected err)) =
     s\<lparr>centrifuge := Some (length (clients s)),
       clients := clients s @ [No_options],
       effects := effects s @
         [Console_error (''Failed to get token or connect: '' @ err),
          Console_log ''Falling back to anonymous connection...'',
          New_Centrifuge (length (clients s)) No_options,
          Connect (length (clients s))]\<rparr> \<and>
   step s (Token_fetched (Fetch_response False body)) =
     s\<lparr>centrifuge := Some (length (clients s)),
       clients := clients s @ [No_options],
       effects := effects s @
         [Console_error (''Failed to get token or connect: '' @ ''Error: Failed to get token''),
          Console_log ''Falling back to anonymous connection...'',
          New_Centrifuge (length (clients s)) No_options,
          Connect (length (clients s))]\<rparr>"
  by (simp add: getTokenAndConnect_response_def fallback_def open_connection_def emit_def Let_def)

text \<open>
  \<^bold>\<open>C7\<close>, as the code has it. When the user name changes to a non-empty value that
  differs from the name applied before, and that name is not empty, the reactive
  statement disconnects the Centrifuge object held in \<^verbatim>\<open>centrifuge\<close> and sets one
  timer of 500 ms, and records the new name as applied. When the timer fires the token is
  fetched for the new name; when it arrives a new Centrifuge object is created with it and
  connected; and when that connection reports \<^verbatim>\<open>connected\<close>, \<^verbatim>\<open>joinTopic\<close> runs for
  the topic that was current all along. When the user name changes to the empty string
  while a non-empty name is applied, only \<^verbatim>\<open>username\<close> changes: no effect is emitted
  and the applied name stays as it was. When the name applied before is empty, as during
  the mount, a change of the user name only records the name: no effect is emitted. The
  mount itself fetches the topics and one token and emits nothing else but the console
  line of a failed fetch of the topics.
\<close>

theorem identity_change_cycle:
  "(u \<noteq> [] \<and> u \<noteq> previousUsername s \<and> previousUsername s \<noteq> [] \<longrightarrow>
      effects (step s (Username_input u)) =
        effects s @ (case centrifuge s of Some c \<Rightarrow> [Disconnect c] | None \<Rightarrow> []) @
        [Set_timeout 500] \<and>
      previousUsername (step s (Username_input u)) = u \<and>
      effects (run s [Username_input u, Timeout_fired,
                      Token_fetched (Fetch_response True (Json_data tok))]) =
        effects s @ (case centrifuge s of Some c \<Rightarrow> [Disconnect c] | None \<Rightarrow> []) @
        [Set_timeout 500, Fetch_token u,
         New_Centrifuge (length (clients s)) (Token_option tok), Connect (length (clients s))] \<and>
      centrifuge (run s [Username_input u, Timeout_fired,
                         Token_fetched (Fetch_response True (Json_data tok))]) =
        Some (length (clients s)) \<and>
      run s [Username_input u, Timeout_fired,
             Token_fetched (Fetch_response True (Json_data tok)),
             On_connected (length (clients s))] =
        joinTopic (currentTopic s)
          (emit (Console_log ''Connected to Centrifugo'')
             ((run s [Username_input u, Timeout_fired,
                      Token_fetched (Fetch_response True (Json_data tok))])
                \<lparr>connected := True\<rparr>))) \<and>
   (u = [] \<and> previousUsername s \<noteq> [] \<longrightarrow>
      step s (Username_input u) = s\<lparr>username := []\<rparr> \<and>
      effects (step s (Username_input u)) = effects s \<and>
      previousUsername (step s (Username_input u)) = previousUsername s) \<and>
   (previousUsername s = [] \<longrightarrow>
      effects (step s (Username_input u)) = effects s \<and>
      previousUsername (step s (Username_input u)) = u) \<and>
   effects (run init [Mount, Topics_fetched r n]) =
     Fetch_topics #
     (case r of
        Inr ts \<Rightarrow> []
      | Inl error \<Rightarrow> [Console_error (''Failed to load topics: '' @ error)]) @
     [Fetch_token (''User'' @ show_nat n)]"
  by (auto simp add: run_def init_def set_username_def reactive_def reconnectWithNewToken_def
        emit_def initializeCentrifugo_def getTokenAndConnect_request_def
        getTokenAndConnect_response_def open_connection_def on_connected_def
        onMount_request_def onMount_response_def Let_def
        split: option.split sum.split)

theorem identity_change_cycle_witness:
  "effects (run (run init connected_trace)
      [Username_input ''bob'', Timeout_fired,
       Token_fetched (Fetch_response True (Json_data (Some ''t2'')))]) =
     effects (run init connected_trace) @
     [Disconnect 0, Set_timeout 500, Fetch_token ''bob'',
      New_Centrifuge 1 (Token_option (Some ''t2'')), Connect 1] \<and>
   previousUsername (run (run init connected_trace)
      [Username_input ''bob'', Timeout_fired,
       Token_fetched (Fetch_response True (Json_data (Some ''t2'')))]) = ''bob'' \<and>
   effects (step (step (run init connected_trace) (Username_input ''bob''))
              (Username_input [])) =
     effects (run init connected_trace) @ [Disconnect 0, Set_timeout 500] \<and>
   previousUsername (step (step (run init connected_trace) (Username_input ''bob''))
                       (Username_input [])) = ''bob'' \<and>
   effects (step init (Username_input ''bob'')) = [] \<and>
   previousUsername (step init (Username_input ''bob'')) = ''bob''"
  using
    identity_change_cycle [where u = "''bob''" and s = "run init connected_trace"
      and tok = "Some ''t2''"]
    identity_change_cycle
      [where u = "[]" and s = "step (run init connected_trace) (Username_input ''bob'')"]
    identity_change_cycle [where u = "''bob''" and s = init]
  by (simp add: run_connected_trace)
     (simp add: init_def run_def set_username_def reactive_def reconnectWithNewToken_def
        emit_def initializeCentrifugo_def getTokenAndConnect_request_def
        getTokenAndConnect_response_def open_connection_def Let_def)

text \<open>The specification speaks of every new value. Clearing the input field is a
  change to a value that differs from the applied name \<^verbatim>\<open>User7\<close>, which is not empty;
  the guard \<^verbatim>\<open>username &&\<close> stops it: only \<^verbatim>\<open>username\<close> changes, no effect is
  emitted and the applied name stays.\<close>

theorem identity_change_empty_counterexample:
  "previousUsername (run init connected_trace) = ''User7'' \<and>
   [] \<noteq> previousUsername (run init connected_trace) \<and>
   effects (step (run init connected_trace) (Username_input [])) =
     effects (run init connected_trace) \<and>
   step (run init connected_trace) (Username_input []) =
     (run init connected_trace)\<lparr>username := []\<rparr>"
  by (simp add: run_connected_trace) (simp add: set_username_def reactive_def)

text \<open>
  \<^bold>\<open>C9\<close>, evaluated on the code. The registry is never cleared, so after a change of the
  user name the \<^verbatim>\<open>connected\<close> callback of the second Centrifuge object finds the entry
  of \<^verbatim>\<open>topic:all\<close> made under the first one: the page is connected through object 1,
  and the subscription it unsubscribes and subscribes again is object 0, created by
  \<^verbatim>\<open>newSubscription\<close> of Centrifuge object 0, which has been disconnected. No
  subscription is created on the new connection.
\<close>

theorem reconnect_reuses_stale_subscription:
  "centrifuge (run init reconnect_trace) = Some 1 \<and>
   connected (run init reconnect_trace) \<and>
   subscription (run init reconnect_trace) = Some 0 \<and>
   sub_client (subs (run init reconnect_trace) ! 0) = 0 \<and>
   drop 8 (effects (run init reconnect_trace)) =
     [Disconnect 0, Set_timeout 500, Console_log ''Disconnected from Centrifugo'',
      Fetch_token ''bob'', New_Centrifuge 1 (Token_option (Some ''t2'')), Connect 1,
      Console_log ''Connected to Centrifugo'', Unsubscribe 0, Subscribe 0]"
proof -
  have "run init reconnect_trace =
      foldl step (run init connected_trace)
        [Username_input ''bob'', On_disconnected 0, Timeout_fired,
         Token_fetched (Fetch_response True (Json_data (Some ''t2''))), On_connected 1]"
    by (simp add: reconnect_trace_def run_def)
  then show ?thesis
    by (simp add: run_connected_trace)
       (simp add: page_defs)
qed

end
